theory Spec2Isabelle
  imports Complex_Main "HOL-Library.AList"
begin

section \<open>JavaScript values\<close>

text \<open>
  The collaboration server (\<^verbatim>\<open>server/index.js\<close>) receives its payloads from the wire, so an
  operation or a join request is an arbitrary JavaScript value. The values below are the ones
  the server inspects: the primitives, plain objects and arrays (property lists in insertion
  order), \<^verbatim>\<open>Date\<close> objects (milliseconds since the epoch) and functions (the acknowledgement
  callbacks).

  A string is a list of code units, shorter than \<open>2^53\<close> as every JavaScript string is; the
  server only measures, slices, concatenates and compares strings, apart from
  \<^verbatim>\<open>toUpperCase\<close>, which the handlers below take as a parameter.

  A number is a finite value, \<^verbatim>\<open>NaN\<close> or an infinity; the finite values are rationals, of
  which the doubles are some.
\<close>

datatype jsnum = Fin rat | NaN | PosInf | NegInf

datatype jsval =
    JUndefined
  | JNull
  | JBool bool
  | JNum jsnum
  | JStr string
  | JDate int
  | JFunction
  | JArr "jsval list"
  | JObj "(string \<times> jsval) list"

datatype jserror = Error string | TypeError string

fun message :: "jserror \<Rightarrow> string" where
  "message (Error m) = m"
| "message (TypeError m) = m"

fun typeof :: "jsval \<Rightarrow> string" where
  "typeof JUndefined = ''undefined''"
| "typeof JNull = ''object''"
| "typeof (JBool b) = ''boolean''"
| "typeof (JNum n) = ''number''"
| "typeof (JStr s) = ''string''"
| "typeof (JDate t) = ''object''"
| "typeof JFunction = ''function''"
| "typeof (JArr xs) = ''object''"
| "typeof (JObj ps) = ''object''"

text \<open>Truthiness, as \<^verbatim>\<open>!v\<close>, \<^verbatim>\<open>a || b\<close> and \<^verbatim>\<open>a && b\<close> test it.\<close>

fun truthy :: "jsval \<Rightarrow> bool" where
  "truthy JUndefined = False"
| "truthy JNull = False"
| "truthy (JBool b) = b"
| "truthy (JNum (Fin q)) = (q \<noteq> 0)"
| "truthy (JNum NaN) = False"
| "truthy (JNum PosInf) = True"
| "truthy (JNum NegInf) = True"
| "truthy (JStr s) = (s \<noteq> [])"
| "truthy (JDate t) = True"
| "truthy JFunction = True"
| "truthy (JArr xs) = True"
| "truthy (JObj ps) = True"

definition js_or :: "jsval \<Rightarrow> jsval \<Rightarrow> jsval" where
  "js_or a b = (if truthy a then a else b)"

subsection \<open>Numbers\<close>

text \<open>\<^verbatim>\<open>a < b\<close> and \<^verbatim>\<open>a <= b\<close> on numbers: every comparison with \<^verbatim>\<open>NaN\<close> is false.\<close>

fun num_lt :: "jsnum \<Rightarrow> jsnum \<Rightarrow> bool" where
  "num_lt NaN b = False"
| "num_lt a NaN = False"
| "num_lt (Fin a) (Fin b) = (a < b)"
| "num_lt (Fin a) PosInf = True"
| "num_lt (Fin a) NegInf = False"
| "num_lt PosInf b = False"
| "num_lt NegInf NegInf = False"
| "num_lt NegInf b = True"

fun num_le :: "jsnum \<Rightarrow> jsnum \<Rightarrow> bool" where
  "num_le NaN b = False"
| "num_le a NaN = False"
| "num_le (Fin a) (Fin b) = (a \<le> b)"
| "num_le (Fin a) PosInf = True"
| "num_le (Fin a) NegInf = False"
| "num_le PosInf PosInf = True"
| "num_le PosInf b = False"
| "num_le NegInf b = True"

definition integral :: "rat \<Rightarrow> bool" where
  "integral q = (q = of_int \<lfloor>q\<rfloor>)"

text \<open>
  \<^verbatim>\<open>a + b\<close> on numbers rounds the sum to a double. The sum is exact when one side is 0. It
  is taken exact when both sides are integers: the double sum of two integers differs from
  the exact one only beyond \<open>2^53\<close>, where both lie beyond the length of every string, and
  the server only compares the sum with a length and slices at it, which does not tell the
  two apart. How any other sum is rounded is left unspecified (\<open>rounded_sum\<close>).
\<close>

definition rounded_sum :: "rat \<Rightarrow> rat \<Rightarrow> jsnum" where
  "rounded_sum = undefined"

fun num_add :: "jsnum \<Rightarrow> jsnum \<Rightarrow> jsnum" where
  "num_add NaN b = NaN"
| "num_add a NaN = NaN"
| "num_add (Fin a) (Fin b) =
     (if a = 0 \<or> b = 0 \<or> (integral a \<and> integral b) then Fin (a + b) else rounded_sum a b)"
| "num_add (Fin a) b = b"
| "num_add PosInf NegInf = NaN"
| "num_add NegInf PosInf = NaN"
| "num_add a b = a"

text \<open>The sum of the reals, as the specification writes \<open>position + length\<close>.\<close>

fun exact_add :: "jsnum \<Rightarrow> jsnum \<Rightarrow> jsnum" where
  "exact_add NaN b = NaN"
| "exact_add a NaN = NaN"
| "exact_add (Fin a) (Fin b) = Fin (a + b)"
| "exact_add (Fin a) b = b"
| "exact_add PosInf NegInf = NaN"
| "exact_add NegInf PosInf = NaN"
| "exact_add a b = a"

definition jsnum_of_nat :: "nat \<Rightarrow> jsnum" where
  "jsnum_of_nat n = Fin (of_nat n)"

definition is_integer :: "jsnum \<Rightarrow> bool" where
  "is_integer n = (case n of Fin q \<Rightarrow> integral q | _ \<Rightarrow> False)"

definition fractional :: "jsnum \<Rightarrow> bool" where
  "fractional n = (case n of Fin q \<Rightarrow> \<not> integral q | _ \<Rightarrow> False)"

text \<open>Truncation towards zero, the finite case of \<^verbatim>\<open>ToIntegerOrInfinity\<close>.\<close>

definition js_trunc :: "rat \<Rightarrow> int" where
  "js_trunc q = (if q < 0 then \<lceil>q\<rceil> else \<lfloor>q\<rfloor>)"

subsection \<open>Coercions\<close>

text \<open>
  Converting a value to a primitive (for a template literal, for \<^verbatim>\<open>+\<close>, for an index of
  \<^verbatim>\<open>slice\<close>) calls its \<^verbatim>\<open>toString\<close> and \<^verbatim>\<open>valueOf\<close>. An object from the wire inherits
  both, unless it has a property of that name, which is then no function: with its own
  \<^verbatim>\<open>toString\<close> the conversion raises a TypeError, whatever its \<^verbatim>\<open>valueOf\<close>. An array is
  joined, its elements converted in turn, \<^verbatim>\<open>null\<close> and \<^verbatim>\<open>undefined\<close> apart. What a
  function-valued \<^verbatim>\<open>toString\<close> or \<^verbatim>\<open>valueOf\<close> returns is left unspecified
  (\<open>method_converts\<close>).
\<close>

definition method_converts :: "jsval \<Rightarrow> bool" where
  "method_converts = undefined"

fun convertible :: "jsval \<Rightarrow> bool" where
  "convertible (JObj ps) =
     (if map_of ps ''toString'' = Some JFunction \<or> map_of ps ''valueOf'' = Some JFunction
      then method_converts (JObj ps)
      else map_of ps ''toString'' = None)"
| "convertible (JArr xs) = (\<forall>x \<in> set xs. x = JNull \<or> x = JUndefined \<or> convertible x)"
| "convertible v = True"

definition conversionError :: jserror where
  "conversionError = TypeError ''Cannot convert object to primitive value''"

text \<open>
  \<^verbatim>\<open>ToNumber\<close> and \<^verbatim>\<open>ToString\<close> of a convertible value, where the result is a constant.
  Parsing a string as a number, printing a number and the strings of objects, arrays, dates
  and functions are left unspecified (\<open>parse_number\<close>, \<open>print_value\<close>): the server reaches
  them only if \<^verbatim>\<open>applyOperationToDocument\<close> is called on an operation that
  \<^verbatim>\<open>isValidOperation\<close> rejects, which \<^verbatim>\<open>applyOperation\<close> never does.
\<close>

definition parse_number :: "jsval \<Rightarrow> jsnum" where
  "parse_number = undefined"

definition print_value :: "jsval \<Rightarrow> string" where
  "print_value = undefined"

fun toNumber :: "jsval \<Rightarrow> jsnum" where
  "toNumber (JNum n) = n"
| "toNumber JUndefined = NaN"
| "toNumber JNull = Fin 0"
| "toNumber (JBool b) = Fin (if b then 1 else 0)"
| "toNumber (JDate t) = Fin (of_int t)"
| "toNumber v = parse_number v"

fun toStr :: "jsval \<Rightarrow> string" where
  "toStr (JStr s) = s"
| "toStr JUndefined = ''undefined''"
| "toStr JNull = ''null''"
| "toStr (JBool b) = (if b then ''true'' else ''false'')"
| "toStr v = print_value v"

text \<open>
  \<^verbatim>\<open>a + b\<close> on convertible values: on primitives, concatenation when one side is a string
  and numeric addition otherwise; on objects, arrays, dates and functions it goes through
  their strings and is left unspecified (\<open>object_plus\<close>).
\<close>

fun primitive :: "jsval \<Rightarrow> bool" where
  "primitive (JDate t) = False"
| "primitive JFunction = False"
| "primitive (JArr xs) = False"
| "primitive (JObj ps) = False"
| "primitive v = True"

definition object_plus :: "jsval \<Rightarrow> jsval \<Rightarrow> jsval" where
  "object_plus = undefined"

definition js_plus :: "jsval \<Rightarrow> jsval \<Rightarrow> jsval" where
  "js_plus a b =
     (if \<not> primitive a \<or> \<not> primitive b then object_plus a b
      else case (a, b) of
        (JNum x, JNum y) \<Rightarrow> JNum (num_add x y)
      | (JStr x, _) \<Rightarrow> JStr (x @ toStr b)
      | (_, JStr y) \<Rightarrow> JStr (toStr a @ y)
      | _ \<Rightarrow> JNum (num_add (toNumber a) (toNumber b)))"

subsection \<open>Properties\<close>

text \<open>
  \<^verbatim>\<open>v.k\<close> for the property names the server reads (\<^verbatim>\<open>type\<close>, \<^verbatim>\<open>position\<close>, \<^verbatim>\<open>content\<close>,
  \<^verbatim>\<open>length\<close>, \<^verbatim>\<open>id\<close>, \<^verbatim>\<open>timestamp\<close>, \<^verbatim>\<open>roomId\<close>, \<^verbatim>\<open>userName\<close>): reading a property of
  \<^verbatim>\<open>null\<close> or \<^verbatim>\<open>undefined\<close> raises a TypeError; strings and arrays have a \<^verbatim>\<open>length\<close>; an
  object has the properties of its list (none of these names is inherited). The server
  reads \<^verbatim>\<open>length\<close> only from a value whose \<^verbatim>\<open>type\<close> property is a string, so never from
  a function.
\<close>

fun getProp :: "jsval \<Rightarrow> string \<Rightarrow> jserror + jsval" where
  "getProp JUndefined k = Inl (TypeError (''Cannot read properties of undefined (reading '' @ [CHR 0x27] @ k @ [CHR 0x27] @ '')''))"
| "getProp JNull k = Inl (TypeError (''Cannot read properties of null (reading '' @ [CHR 0x27] @ k @ [CHR 0x27] @ '')''))"
| "getProp (JObj ps) k = Inr (case map_of ps k of None \<Rightarrow> JUndefined | Some v \<Rightarrow> v)"
| "getProp (JStr s) k = Inr (if k = ''length'' then JNum (jsnum_of_nat (length s)) else JUndefined)"
| "getProp (JArr xs) k = Inr (if k = ''length'' then JNum (jsnum_of_nat (length xs)) else JUndefined)"
| "getProp v k = Inr JUndefined"

text \<open>The same read where the source has already excluded \<^verbatim>\<open>null\<close> and \<^verbatim>\<open>undefined\<close>.\<close>

definition readProp :: "jsval \<Rightarrow> string \<Rightarrow> jsval" where
  "readProp v k = (case getProp v k of Inr x \<Rightarrow> x | Inl e \<Rightarrow> JUndefined)"

text \<open>
  Object spread \<^verbatim>\<open>{...v, k1: x1, ...}\<close>: the own enumerable properties of \<open>v\<close> (the index
  keys of a string or an array, nothing for the other primitives), then the listed
  properties, each replacing a property of the same name in place.
\<close>

fun digits :: "nat \<Rightarrow> string" where
  "digits n = (if n < 10 then [''0123456789'' ! n] else digits (n div 10) @ [''0123456789'' ! (n mod 10)])"

definition indexed :: "jsval list \<Rightarrow> (string \<times> jsval) list" where
  "indexed xs = zip (map digits [0..<length xs]) xs"

fun ownProps :: "jsval \<Rightarrow> (string \<times> jsval) list" where
  "ownProps (JObj ps) = ps"
| "ownProps (JArr xs) = indexed xs"
| "ownProps (JStr s) = indexed (map (\<lambda>c. JStr [c]) s)"
| "ownProps v = []"

definition spread :: "jsval \<Rightarrow> (string \<times> jsval) list \<Rightarrow> jsval" where
  "spread v kvs = JObj (foldl (\<lambda>ps (k, x). AList.update k x ps) (ownProps v) kvs)"

subsection \<open>Strings and arrays\<close>

text \<open>
  The index that \<^verbatim>\<open>slice\<close> derives from an argument, for a string or array of length \<open>n\<close>:
  \<^verbatim>\<open>NaN\<close> counts as 0, the value is truncated, a negative value counts from the end, and the
  result is clamped to \<open>0..n\<close>.
\<close>

fun relIndex :: "nat \<Rightarrow> jsnum \<Rightarrow> nat" where
  "relIndex n NaN = 0"
| "relIndex n NegInf = 0"
| "relIndex n PosInf = n"
| "relIndex n (Fin q) =
     (if js_trunc q < 0 then nat (max (int n + js_trunc q) 0) else min (nat (js_trunc q)) n)"

text \<open>\<^verbatim>\<open>s.slice(start, end)\<close>; \<open>None\<close> is the omitted \<^verbatim>\<open>end\<close>.\<close>

definition slice :: "'a list \<Rightarrow> jsnum \<Rightarrow> jsnum option \<Rightarrow> 'a list" where
  "slice s start end =
     (let n = length s;
          from = relIndex n start;
          to = (case end of None \<Rightarrow> n | Some e \<Rightarrow> relIndex n e)
      in take (to - from) (drop from s))"

section \<open>The Room class\<close>

text \<open>
  A user record as the handlers build it (\<^verbatim>\<open>{id, name, color, cursor}\<close>); the room stores it
  with \<^verbatim>\<open>joinedAt\<close> and \<^verbatim>\<open>lastSeen\<close>. Times are milliseconds; each call reads the clock
  once (\<open>now\<close>), where the source evaluates \<^verbatim>\<open>new Date()\<close> several times in a row.
\<close>

record userData =
  user_id :: string
  name :: jsval
  color :: jsval
  cursor :: jsval

record presence = userData +
  joinedAt :: int
  lastSeen :: int

text \<open>
  \<^verbatim>\<open>users\<close> is a JavaScript \<^verbatim>\<open>Map\<close>: an association list in insertion order, where
  \<^verbatim>\<open>set\<close> replaces in place or appends (\<open>AList.update\<close>), \<^verbatim>\<open>delete\<close> is \<open>AList.delete\<close>
  and \<^verbatim>\<open>size\<close> is the length (the keys stay distinct under these two).

  \<^verbatim>\<open>addUser\<close> and \<^verbatim>\<open>removeUser\<close> end with a log line that puts the user's name into a
  template literal: a name that is not convertible raises a TypeError there, after the room
  has been changed. The log line of \<^verbatim>\<open>applyOperation\<close> prints the type of an accepted
  operation, a string, and raises nothing.
\<close>

record room =
  room_id :: string
  document :: string
  users :: "(string \<times> presence) list"
  operations :: "jsval list"
  createdAt :: int
  lastActivity :: int
  maxUsers :: nat

definition welcomeDocument :: string where
  "welcomeDocument = ''// Welcome to the collaborative editor!'' @ [CHR 0x0A] @
     ''// Start typing to see real-time collaboration in action'' @ [CHR 0x0A, CHR 0x0A] @
     ''console.log('' @ [CHR 0x22] @ ''Hello, collaborative world!'' @ [CHR 0x22] @ '');''"

definition newRoom :: "int \<Rightarrow> string \<Rightarrow> room" where
  "newRoom now rid =
     \<lparr>room_id = rid, document = welcomeDocument, users = [], operations = [],
      createdAt = now, lastActivity = now, maxUsers = 10\<rparr>"

definition addUser :: "int \<Rightarrow> string \<Rightarrow> userData \<Rightarrow> room \<Rightarrow> (jserror + unit) \<times> room" where
  "addUser now userId ud r =
     (if length (users r) \<ge> maxUsers r then (Inl (Error ''Room is full''), r)
      else if \<not> truthy (name ud) \<or> \<not> truthy (color ud) then (Inl (Error ''Invalid user data''), r)
      else
        let r1 = r\<lparr>users := AList.update userId
                       \<lparr>user_id = user_id ud, name = name ud, color = color ud,
                        cursor = cursor ud, joinedAt = now, lastSeen = now\<rparr> (users r),
                   lastActivity := now\<rparr>
        in if convertible (name ud) then (Inr (), r1) else (Inl conversionError, r1))"

definition removeUser ::
  "int \<Rightarrow> string \<Rightarrow> room \<Rightarrow> (jserror + presence option) \<times> room" where
  "removeUser now userId r =
     (case map_of (users r) userId of
        Some user \<Rightarrow>
          let r1 = r\<lparr>users := AList.delete userId (users r), lastActivity := now\<rparr>
          in if convertible (name user) then (Inr (Some user), r1)
             else (Inl conversionError, r1)
      | None \<Rightarrow> (Inr None, r))"

definition isValidOperation :: "room \<Rightarrow> jsval \<Rightarrow> bool" where
  "isValidOperation r operation =
     (if \<not> truthy operation \<or> typeof operation \<noteq> ''object'' then False
      else let type = readProp operation ''type''; position = readProp operation ''position'' in
        if type \<notin> set [JStr ''insert'', JStr ''delete'', JStr ''retain''] then False
        else case position of
          JNum p \<Rightarrow>
            if num_lt p (Fin 0) \<or> num_lt (jsnum_of_nat (length (document r))) p then False
            else if type = JStr ''insert'' then
              (case readProp operation ''content'' of JStr c \<Rightarrow> length c > 0 | _ \<Rightarrow> False)
            else if type = JStr ''delete'' then
              (case readProp operation ''length'' of
                 JNum l \<Rightarrow> num_lt (Fin 0) l \<and>
                           num_le (num_add p l) (jsnum_of_nat (length (document r)))
               | _ \<Rightarrow> False)
            else if type = JStr ''retain'' then
              (case readProp operation ''length'' of JNum l \<Rightarrow> num_lt (Fin 0) l | _ \<Rightarrow> False)
            else False
        | _ \<Rightarrow> False)"

text \<open>
  The \<^verbatim>\<open>try\<close> block of \<^verbatim>\<open>applyOperationToDocument\<close>: the new document, or the exception it
  raises (\<open>Inl\<close>).
\<close>

definition applyOperationToDocument_try :: "string \<Rightarrow> jsval \<Rightarrow> jserror + string" where
  "applyOperationToDocument_try doc operation =
     (case getProp operation ''type'' of
        Inl e \<Rightarrow> Inl e
      | Inr type \<Rightarrow>
          if type = JStr ''insert'' then
            if \<not> convertible (readProp operation ''position'') \<or>
               \<not> convertible (readProp operation ''content'') then Inl conversionError
            else
              Inr (slice doc (Fin 0) (Some (toNumber (readProp operation ''position''))) @
                   toStr (readProp operation ''content'') @
                   slice doc (toNumber (readProp operation ''position'')) None)
          else if type = JStr ''delete'' then
            if \<not> convertible (readProp operation ''position'') \<or>
               \<not> convertible (readProp operation ''length'') then Inl conversionError
            else
              Inr (slice doc (Fin 0) (Some (toNumber (readProp operation ''position''))) @
                   slice doc (toNumber (js_plus (readProp operation ''position'')
                                                (readProp operation ''length''))) None)
          else if type = JStr ''retain'' then Inr doc
          else if \<not> convertible type then Inl conversionError
          else Inl (Error (''Unknown operation type: '' @ toStr type)))"

text \<open>The \<^verbatim>\<open>catch\<close> block returns the original document.\<close>

definition applyOperationToDocument :: "string \<Rightarrow> jsval \<Rightarrow> string" where
  "applyOperationToDocument doc operation =
     (case applyOperationToDocument_try doc operation of Inl e \<Rightarrow> doc | Inr d \<Rightarrow> d)"

record apply_result =
  success :: bool
  previousLength :: nat
  newLength :: nat

text \<open>
  \<^verbatim>\<open>applyOperation\<close> returns its result or the exception it throws, and the room as the call
  leaves it.
\<close>

definition applyOperation :: "int \<Rightarrow> jsval \<Rightarrow> room \<Rightarrow> (jserror + apply_result) \<times> room" where
  "applyOperation now operation r =
     (if \<not> isValidOperation r operation then (Inl (Error ''Invalid operation''), r)
      else
        let pushed = operations r @ [spread operation [(''appliedAt'', JDate now)]];
            kept = (if length pushed > 1000 then slice pushed (Fin (- 1000)) None else pushed);
            previousDocument = document r;
            newDocument = applyOperationToDocument (document r) operation
        in (Inr \<lparr>success = True, previousLength = length previousDocument,
                 newLength = length newDocument\<rparr>,
            r\<lparr>operations := kept, document := newDocument, lastActivity := now\<rparr>))"



record user_view =
  view_id :: string
  view_name :: jsval
  view_color :: jsval
  view_cursor :: jsval
  view_joinedAt :: int
  view_isActive :: bool

definition getUserList :: "int \<Rightarrow> room \<Rightarrow> user_view list" where
  "getUserList now r =
     map (\<lambda>(k, user). \<lparr>view_id = user_id user, view_name = name user, view_color = color user,
                       view_cursor = cursor user, view_joinedAt = joinedAt user,
                       view_isActive = (now - lastSeen user < 30000)\<rparr>) (users r)"

record stats =
  stats_id :: string
  userCount :: nat
  stats_maxUsers :: nat
  documentLength :: nat
  operationCount :: nat
  stats_createdAt :: int
  stats_lastActivity :: int
  stats_isActive :: bool

definition getStats :: "int \<Rightarrow> room \<Rightarrow> stats" where
  "getStats now r =
     \<lparr>stats_id = room_id r, userCount = length (users r), stats_maxUsers = maxUsers r,
      documentLength = length (document r), operationCount = length (operations r),
      stats_createdAt = createdAt r, stats_lastActivity = lastActivity r,
      stats_isActive = (now - lastActivity r < 300000)\<rparr>"

text \<open>
  A room is driven by calls of its three mutating methods. A call that throws leaves the
  room as it was when the exception was raised, and the next call finds it so.
\<close>

datatype room_call =
    AddUser string userData
  | RemoveUser string
  | ApplyOperation jsval

fun call :: "int \<Rightarrow> room_call \<Rightarrow> room \<Rightarrow> room" where
  "call now (AddUser userId ud) r = snd (addUser now userId ud r)"
| "call now (RemoveUser userId) r = snd (removeUser now userId r)"
| "call now (ApplyOperation operation) r = snd (applyOperation now operation r)"

fun calls :: "(int \<times> room_call) list \<Rightarrow> room \<Rightarrow> room" where
  "calls [] r = r"
| "calls ((now, c) # cs) r = calls cs (call now c r)"

definition room_bounds :: "room \<Rightarrow> bool" where
  "room_bounds r = (maxUsers r = 10 \<and> length (users r) \<le> 10 \<and> length (operations r) \<le> 1000)"

section \<open>The server\<close>

text \<open>
  The process-wide state is the registry \<^verbatim>\<open>rooms\<close> (a \<^verbatim>\<open>Map\<close>, as above) and the colour
  counter. A room object is shared between the registry and the handler that mutates it, so
  a handler writes the room back under its key. A socket carries its id and the
  \<^verbatim>\<open>roomId\<close> field the handlers set on it (\<open>None\<close> while it is undefined).
\<close>

record server =
  rooms :: "(string \<times> room) list"
  colorIndex :: nat

record socket =
  sock_id :: string
  sock_roomId :: "string option"



definition userColors :: "string list" where
  "userColors =
     [''#FF6B6B'', ''#4ECDC4'', ''#45B7D1'', ''#96CEB4'',
      ''#FFEAA7'', ''#DDA0DD'', ''#98D8C8'', ''#F7DC6F'',
      ''#FF8A80'', ''#82B1FF'', ''#B39DDB'', ''#A5D6A7'']"

definition getNextUserColor :: "server \<Rightarrow> string \<times> server" where
  "getNextUserColor s =
     (userColors ! (colorIndex s mod length userColors), s\<lparr>colorIndex := colorIndex s + 1\<rparr>)"

definition userNames :: "string list" where
  "userNames =
     [''Alice'', ''Bob'', ''Charlie'', ''Diana'', ''Eve'', ''Frank'',
      ''Grace'', ''Henry'', ''Ivy'', ''Jack'', ''Kate'', ''Leo'']"

definition generateUserName :: "nat \<Rightarrow> string" where
  "generateUserName existingCount =
     (if existingCount < length userNames then userNames ! existingCount
      else ''User '' @ digits (existingCount + 1))"

subsection \<open>Messages\<close>

datatype ack_user = NoUser | UserData userData | Presence presence

record ack_body =
  ack_roomId :: "string option"
  ack_document :: string
  ack_users :: "user_view list"
  ack_user :: ack_user
  ack_roomStats :: stats
  ack_documentVersion :: "nat option"

datatype ack = AckOk ack_body | AckFail string

datatype event =
    UserJoined userData nat
  | UserLeft string
  | DocumentUpdate jsval
  | OperationAck jsval jsval
  | OperationError string jsval jsval

text \<open>
  What a handler sends: the acknowledgement (\<^verbatim>\<open>callback(...)\<close>), an event to its own socket
  (\<^verbatim>\<open>socket.emit\<close>), or an event to the other sockets of a room
  (\<^verbatim>\<open>socket.to(roomId).emit\<close>).
\<close>

datatype emit = Callback ack | ToSocket event | ToRoom string event

text \<open>
  What a handler leaves behind: the server, the socket, what it sent, in order, and the
  exception that escaped it, if one did.
\<close>

record outcome =
  server_of :: server
  socket_of :: socket
  emitted :: "emit list"
  uncaught :: "jserror option"

definition origin :: jsval where
  "origin = JObj [(''line'', JNum (Fin 0)), (''column'', JNum (Fin 0))]"

subsection \<open>create-room\<close>


subsection \<open>join-room\<close>

text \<open>
  \<^verbatim>\<open>callback(...)\<close> raises a TypeError when no function was sent. Inside the \<^verbatim>\<open>try\<close> the
  \<^verbatim>\<open>catch\<close> block takes over, and its own \<^verbatim>\<open>callback(...)\<close> raises again, out of the handler.
\<close>

definition joinRoom_catch :: "jsval \<Rightarrow> jserror \<Rightarrow> server \<Rightarrow> socket \<Rightarrow> outcome" where
  "joinRoom_catch callback error s sock =
     (if typeof callback = ''function'' then
        \<lparr>server_of = s, socket_of = sock,
         emitted = [Callback (AckFail (if message error \<noteq> [] then message error
                                       else ''Failed to join room''))],
         uncaught = None\<rparr>
      else
        \<lparr>server_of = s, socket_of = sock, emitted = [],
         uncaught = Some (TypeError ''callback is not a function'')\<rparr>)"

definition joinRoom_reply :: "jsval \<Rightarrow> ack \<Rightarrow> server \<Rightarrow> socket \<Rightarrow> outcome" where
  "joinRoom_reply callback a s sock =
     (if typeof callback = ''function'' then
        \<lparr>server_of = s, socket_of = sock, emitted = [Callback a], uncaught = None\<rparr>
      else joinRoom_catch callback (TypeError ''callback is not a function'') s sock)"

text \<open>The \<^verbatim>\<open>try\<close> statement of the handler, with \<^verbatim>\<open>roomId\<close> and \<^verbatim>\<open>userName\<close> extracted.\<close>

definition joinRoom_try ::
  "(string \<Rightarrow> string) \<Rightarrow> int \<Rightarrow> server \<Rightarrow> socket \<Rightarrow> jsval \<Rightarrow> jsval \<Rightarrow> jsval \<Rightarrow> outcome" where
  "joinRoom_try toUpperCase now s sock requested userName callback =
     (case requested of
        JStr given \<Rightarrow>
          if \<not> truthy requested \<or> length given \<noteq> 6 then
            joinRoom_reply callback (AckFail ''Invalid room ID format'') s sock
          else
            let roomId = toUpperCase given in
            (case map_of (rooms s) roomId of
               None \<Rightarrow> joinRoom_reply callback (AckFail ''Room not found'') s sock
             | Some room \<Rightarrow>
                 if sock_roomId sock = Some roomId then
                   joinRoom_reply callback
                     (AckOk \<lparr>ack_roomId = None, ack_document = document room,
                             ack_users = getUserList now room,
                             ack_user = (case map_of (users room) (sock_id sock) of
                                           None \<Rightarrow> NoUser | Some user \<Rightarrow> Presence user),
                             ack_roomStats = getStats now room,
                             ack_documentVersion = None\<rparr>) s sock
                 else if (case sock_roomId sock of
                            None \<Rightarrow> False | Some bound \<Rightarrow> bound \<noteq> [] \<and> bound \<noteq> roomId) then
                   joinRoom_reply callback (AckFail ''Already in a different room'') s sock
                 else
                   let existingUserCount = length (users room);
                       userData = \<lparr>user_id = sock_id sock,
                                   name = js_or userName (JStr (generateUserName existingUserCount)),
                                   color = JStr (fst (getNextUserColor s)),
                                   cursor = origin\<rparr>;
                       s1 = snd (getNextUserColor s)
                   in case addUser now (sock_id sock) userData room of
                        (Inl e, room1) \<Rightarrow>
                          joinRoom_catch callback e
                            (s1\<lparr>rooms := AList.update roomId room1 (rooms s1)\<rparr>) sock
                      | (Inr u, room1) \<Rightarrow>
                          let s2 = s1\<lparr>rooms := AList.update roomId room1 (rooms s1)\<rparr>;
                              sock1 = sock\<lparr>sock_roomId := Some roomId\<rparr>
                          in if typeof callback = ''function'' then
                               \<lparr>server_of = s2, socket_of = sock1,
                                emitted =
                                  [Callback (AckOk \<lparr>ack_roomId = None,
                                       ack_document = document room1,
                                       ack_users = getUserList now room1,
                                       ack_user = UserData userData,
                                       ack_roomStats = getStats now room1,
                                       ack_documentVersion = Some (length (operations room1))\<rparr>),
                                   ToRoom roomId (UserJoined userData (length (users room1)))],
                                uncaught = None\<rparr>
                             else joinRoom_catch callback
                                    (TypeError ''callback is not a function'') s2 sock1)
      | _ \<Rightarrow> joinRoom_reply callback (AckFail ''Invalid room ID format'') s sock)"

text \<open>
  The handler: a string payload is the room id (old format), any other payload is read as
  \<^verbatim>\<open>{roomId, userName}\<close>. Then the request is logged, with \<^verbatim>\<open>roomId\<close> and
  \<^verbatim>\<open>userName || 'anonymous'\<close> in a template literal; a value that is not convertible
  raises a TypeError there. Both happen before the \<^verbatim>\<open>try\<close> begins, so the exception leaves
  the handler and nothing is acknowledged. The later log lines print the uppercased id and
  the name that \<^verbatim>\<open>addUser\<close> has already printed.
\<close>

definition joinRoom ::
  "(string \<Rightarrow> string) \<Rightarrow> int \<Rightarrow> server \<Rightarrow> socket \<Rightarrow> jsval \<Rightarrow> jsval \<Rightarrow> outcome" where
  "joinRoom toUpperCase now s sock data callback =
     (case (if typeof data = ''string'' then Inr (data, JNull)
            else case getProp data ''roomId'' of
                   Inl e \<Rightarrow> Inl e
                 | Inr v \<Rightarrow> Inr (v, js_or (readProp data ''userName'') JNull)) of
        Inl e \<Rightarrow> \<lparr>server_of = s, socket_of = sock, emitted = [], uncaught = Some e\<rparr>
      | Inr (requested, userName) \<Rightarrow>
          if \<not> convertible requested \<or> \<not> convertible (js_or userName (JStr ''anonymous''))
          then \<lparr>server_of = s, socket_of = sock, emitted = [],
                uncaught = Some conversionError\<rparr>
          else joinRoom_try toUpperCase now s sock requested userName callback)"

subsection \<open>document-operation\<close>




subsection \<open>disconnect\<close>


subsection \<open>The HTTP surface\<close>

text \<open>
  \<^verbatim>\<open>app.get(path, handler)\<close> appends a route. A request runs the first route whose path
  matches; both \<^verbatim>\<open>/health\<close> handlers answer with \<^verbatim>\<open>res.json\<close> and neither calls
  \<^verbatim>\<open>next\<close>, so no later route runs. The routes below are the two \<^verbatim>\<open>/health\<close>
  registrations in the order of the source; \<^verbatim>\<open>/room/:roomId\<close>, registered after them,
  matches no \<^verbatim>\<open>/health\<close> request. The process figures (\<^verbatim>\<open>process.uptime()\<close>,
  \<^verbatim>\<open>process.memoryUsage()\<close>) are inputs.
\<close>

record process_info =
  uptime :: rat
  memory :: jsval

record server_info =
  info_uptime :: rat
  info_memory :: jsval
  info_rooms :: nat

datatype response =
    BasicHealth string nat int
  | EnhancedHealth string int server_info "stats list"
  | NotFound

definition healthBasic :: "int \<Rightarrow> process_info \<Rightarrow> server \<Rightarrow> response" where
  "healthBasic now process s = BasicHealth ''ok'' (length (rooms s)) now"

definition healthEnhanced :: "int \<Rightarrow> process_info \<Rightarrow> server \<Rightarrow> response" where
  "healthEnhanced now process s =
     (let roomStats = map (\<lambda>(k, room). getStats now room) (rooms s)
      in EnhancedHealth ''ok'' now
           \<lparr>info_uptime = uptime process, info_memory = memory process,
            info_rooms = length (rooms s)\<rparr>
           roomStats)"

definition routes :: "(string \<times> (int \<Rightarrow> process_info \<Rightarrow> server \<Rightarrow> response)) list" where
  "routes = [(''/health'', healthBasic), (''/health'', healthEnhanced)]"

definition httpGet :: "string \<Rightarrow> int \<Rightarrow> process_info \<Rightarrow> server \<Rightarrow> response" where
  "httpGet path now process s =
     (case map_of routes path of None \<Rightarrow> NotFound | Some handler \<Rightarrow> handler now process s)"

section \<open>Statements of the specification\<close>

text \<open>
  The validity predicate in the words of the specification: the type is one of
  insert, delete, retain; the position is a non-negative integer with
  \<open>0 \<le> position \<le> len(document)\<close>; an insert has a non-empty string as content; a delete
  has \<open>length > 0\<close> and \<open>position + length \<le> len(document)\<close>; a retain has \<open>length > 0\<close>.
\<close>

definition validateOperation_spec :: "string \<Rightarrow> jsval \<Rightarrow> bool" where
  "validateOperation_spec d operation =
     (let type = readProp operation ''type''; n = jsnum_of_nat (length d) in
      type \<in> set [JStr ''insert'', JStr ''delete'', JStr ''retain''] \<and>
      (case readProp operation ''position'' of
         JNum p \<Rightarrow>
           is_integer p \<and> num_le (Fin 0) p \<and> num_le p n \<and>
           (type = JStr ''insert'' \<longrightarrow>
              (case readProp operation ''content'' of JStr c \<Rightarrow> c \<noteq> [] | _ \<Rightarrow> False)) \<and>
           (type = JStr ''delete'' \<longrightarrow>
              (case readProp operation ''length'' of
                 JNum l \<Rightarrow> num_lt (Fin 0) l \<and> num_le (exact_add p l) n | _ \<Rightarrow> False)) \<and>
           (type = JStr ''retain'' \<longrightarrow>
              (case readProp operation ''length'' of JNum l \<Rightarrow> num_lt (Fin 0) l | _ \<Rightarrow> False))
       | _ \<Rightarrow> False))"

text \<open>
  The same predicate with the position rule and the sum of the code: the position is a
  number that is neither below 0 nor above the length of the document, and
  \<open>position + length\<close> is the sum as JavaScript adds the two. Whether the position is an
  integer is not asked, and \<^verbatim>\<open>NaN\<close>, for which both comparisons are false, passes.
\<close>

definition validateOperation_amended :: "string \<Rightarrow> jsval \<Rightarrow> bool" where
  "validateOperation_amended d operation =
     (let type = readProp operation ''type''; n = jsnum_of_nat (length d) in
      type \<in> set [JStr ''insert'', JStr ''delete'', JStr ''retain''] \<and>
      (case readProp operation ''position'' of
         JNum p \<Rightarrow>
           \<not> num_lt p (Fin 0) \<and> \<not> num_lt n p \<and>
           (type = JStr ''insert'' \<longrightarrow>
              (case readProp operation ''content'' of JStr c \<Rightarrow> c \<noteq> [] | _ \<Rightarrow> False)) \<and>
           (type = JStr ''delete'' \<longrightarrow>
              (case readProp operation ''length'' of
                 JNum l \<Rightarrow> num_lt (Fin 0) l \<and> num_le (num_add p l) n | _ \<Rightarrow> False)) \<and>
           (type = JStr ''retain'' \<longrightarrow>
              (case readProp operation ''length'' of JNum l \<Rightarrow> num_lt (Fin 0) l | _ \<Rightarrow> False))
       | _ \<Rightarrow> False))"

text \<open>
  The room id that a join request carries: the payload itself when it is a string, the
  \<^verbatim>\<open>roomId\<close> property of any other payload, and none for \<^verbatim>\<open>null\<close> and \<^verbatim>\<open>undefined\<close>,
  where reading the property raises.
\<close>

definition requestOf :: "jsval \<Rightarrow> jsval option" where
  "requestOf data =
     (if typeof data = ''string'' then Some data
      else case getProp data ''roomId'' of Inr v \<Rightarrow> Some v | Inl e \<Rightarrow> None)"

text \<open>The user name that a join request and a create request carry.\<close>

definition joinUserName :: "jsval \<Rightarrow> jsval" where
  "joinUserName data =
     (if typeof data = ''string'' then JNull else js_or (readProp data ''userName'') JNull)"


text \<open>
  The lexical rule of the specification for room ids: exactly 6 characters, each a letter
  or a digit.
\<close>

definition alnum :: "char \<Rightarrow> bool" where
  "alnum c = (c \<in> set ''ABCDEFGHIJKLMNOPQRSTUVWXYZabcdefghijklmnopqrstuvwxyz0123456789'')"

definition roomIdRule :: "string \<Rightarrow> bool" where
  "roomIdRule given = (length given = 6 \<and> list_all alnum given)"


section \<open>Example values\<close>

text \<open>\<^verbatim>\<open>toUpperCase\<close> on strings of ASCII characters.\<close>

definition asciiUpper :: "string \<Rightarrow> string" where
  "asciiUpper s =
     map (\<lambda>c. case map_of (zip ''abcdefghijklmnopqrstuvwxyz'' ''ABCDEFGHIJKLMNOPQRSTUVWXYZ'') c of
                None \<Rightarrow> c | Some u \<Rightarrow> u) s"

definition helloRoom :: room where
  "helloRoom = (newRoom 0 ''ABC123'')\<lparr>document := ''hello''\<rparr>"

definition insertOp :: "jsnum \<Rightarrow> string \<Rightarrow> jsval" where
  "insertOp p c = JObj [(''type'', JStr ''insert''), (''position'', JNum p), (''content'', JStr c)]"

definition deleteOp :: "jsnum \<Rightarrow> jsnum \<Rightarrow> jsval" where
  "deleteOp p l = JObj [(''type'', JStr ''delete''), (''position'', JNum p), (''length'', JNum l)]"


definition alice :: presence where
  "alice = \<lparr>user_id = ''s1'', name = JStr ''Alice'', color = JStr ''#FF6B6B'', cursor = origin,
            joinedAt = 0, lastSeen = 0\<rparr>"

definition bob :: userData where
  "bob = \<lparr>user_id = ''s2'', name = JStr ''Bob'', color = JStr ''#4ECDC4'', cursor = origin\<rparr>"

definition exampleRoom :: room where
  "exampleRoom = helloRoom\<lparr>users := [(''s1'', alice)]\<rparr>"

definition fullRoom :: room where
  "fullRoom = helloRoom\<lparr>users := map (\<lambda>k. (k, alice))
     [''s1'', ''s2'', ''s3'', ''s4'', ''s5'', ''s6'', ''s7'', ''s8'', ''s9'', ''s10'']\<rparr>"

definition exampleServer :: server where
  "exampleServer = \<lparr>rooms = [(''ABC123'', exampleRoom)], colorIndex = 1\<rparr>"


definition freshSocket :: socket where
  "freshSocket = \<lparr>sock_id = ''s2'', sock_roomId = None\<rparr>"


text \<open>
  The object \<^verbatim>\<open>{toString: 1}\<close>, as JSON carries it, and a join request for "zzz999" with
  that object as user name.
\<close>

definition hostile :: jsval where
  "hostile = JObj [(''toString'', JNum (Fin 1))]"

definition hostileJoin :: jsval where
  "hostileJoin = JObj [(''roomId'', JStr ''zzz999''), (''userName'', hostile)]"


lemmas example_defs =
  helloRoom_def insertOp_def deleteOp_def newRoom_def readProp_def jsnum_of_nat_def

section \<open>Slicing and property reads\<close>

lemma floor_half: "\<lfloor>1 / 2 :: rat\<rfloor> = 0"
  by (rule floor_unique) simp_all

lemma relIndex_le: "relIndex n p \<le> n"
proof (cases p)
  case (Fin q)
  show ?thesis
  proof (cases "js_trunc q < 0")
    case True
    then have "nat (max (int n + js_trunc q) 0) \<le> n" by linarith
    with True Fin show ?thesis by simp
  next
    case False
    with Fin show ?thesis by simp
  qed
qed simp_all

lemma relIndex_int:
  "0 \<le> i \<Longrightarrow> i \<le> int n \<Longrightarrow> relIndex n (Fin (of_int i)) = nat i"
  by (simp add: js_trunc_def)

lemma slice_prefix: "slice d (Fin 0) (Some p) = take (relIndex (length d) p) d"
  by (simp add: slice_def js_trunc_def)

lemma slice_suffix: "slice d p None = drop (relIndex (length d) p) d"
  by (simp add: slice_def)

lemma slice_last: "slice xs (Fin (- 1000)) None = drop (length xs - 1000) xs"
proof -
  have "nat (max (int (length xs) - 1000) 0) = length xs - 1000" by linarith
  then show ?thesis by (simp add: slice_def js_trunc_def)
qed

lemma getProp_readProp: "truthy v \<Longrightarrow> getProp v k = Inr (readProp v k)"
  by (cases v) (simp_all add: readProp_def)

lemma getProp_defined:
  "operation \<noteq> JNull \<Longrightarrow> operation \<noteq> JUndefined \<Longrightarrow>
     getProp operation k = Inr (readProp operation k)"
  by (cases operation) (simp_all add: readProp_def)

lemma readProp_type_object:
  "readProp operation ''type'' \<in> set [JStr ''insert'', JStr ''delete'', JStr ''retain'']
     \<Longrightarrow> truthy operation \<and> typeof operation = ''object''"
  by (cases operation) (auto simp: readProp_def split: if_splits)

section \<open>Validation\<close>

lemma valid_shape:
  "isValidOperation r operation =
     (truthy operation \<and> typeof operation = ''object'' \<and>
      (\<exists>p. readProp operation ''position'' = JNum p \<and> \<not> num_lt p (Fin 0) \<and>
           \<not> num_lt (jsnum_of_nat (length (document r))) p \<and>
           (readProp operation ''type'' = JStr ''insert'' \<and>
              (\<exists>c. readProp operation ''content'' = JStr c \<and> c \<noteq> []) \<or>
            readProp operation ''type'' = JStr ''delete'' \<and>
              (\<exists>l. readProp operation ''length'' = JNum l \<and> num_lt (Fin 0) l \<and>
                   num_le (num_add p l) (jsnum_of_nat (length (document r)))) \<or>
            readProp operation ''type'' = JStr ''retain'' \<and>
              (\<exists>l. readProp operation ''length'' = JNum l \<and> num_lt (Fin 0) l))))"
  unfolding isValidOperation_def Let_def
  by (auto split: jsval.splits)

lemma valid_amended:
  "isValidOperation r operation = validateOperation_amended (document r) operation"
proof (cases "readProp operation ''type'' \<in> set [JStr ''insert'', JStr ''delete'', JStr ''retain'']")
  case True
  from readProp_type_object [OF True] True show ?thesis
    unfolding isValidOperation_def validateOperation_amended_def Let_def
    by (auto split: jsval.splits)
next
  case False
  then show ?thesis
    unfolding isValidOperation_def validateOperation_amended_def Let_def
    by auto
qed

lemma integral_of_int [simp]: "integral (of_int i)"
  by (simp add: integral_def)

lemma integral_of_nat [simp]: "integral (of_nat n)"
  by (simp add: integral_def)

lemma integral_numeral [simp]: "integral 0" "integral 1" "integral (numeral k)"
  by (simp_all add: integral_def)

lemma integer_range:
  "is_integer p \<Longrightarrow>
     (num_le (Fin 0) p \<and> num_le p (Fin m)) = (\<not> num_lt p (Fin 0) \<and> \<not> num_lt (Fin m) p)"
  by (cases p) (auto simp: is_integer_def)

lemma integer_sum:
  "is_integer p \<Longrightarrow> \<not> fractional l \<Longrightarrow> num_add p l = exact_add p l"
  by (cases p; cases l) (auto simp: is_integer_def fractional_def)

lemma amended_spec:
  assumes "readProp operation ''position'' = JNum p" "is_integer p"
    and "\<forall>l. readProp operation ''length'' = JNum l \<longrightarrow> \<not> fractional l"
  shows "validateOperation_amended d operation = validateOperation_spec d operation"
proof -
  have "num_add p l = exact_add p l" if "readProp operation ''length'' = JNum l" for l
    using that assms(2,3) by (simp add: integer_sum)
  with assms(1,2) integer_range [of p "of_nat (length d)"] show ?thesis
    unfolding validateOperation_amended_def validateOperation_spec_def Let_def jsnum_of_nat_def
    by (auto split: jsval.splits)
qed

lemma insert_at_end:
  "c \<noteq> [] \<Longrightarrow> isValidOperation r (insertOp (jsnum_of_nat (length (document r))) c)"
  by (simp add: isValidOperation_def insertOp_def readProp_def jsnum_of_nat_def)

lemma insert_past_end:
  "\<not> isValidOperation r (insertOp (jsnum_of_nat (length (document r) + 1)) c)"
  by (simp add: isValidOperation_def insertOp_def readProp_def jsnum_of_nat_def)

lemma delete_nothing: "\<not> isValidOperation r (deleteOp p (Fin 0))"
  by (auto simp add: isValidOperation_def deleteOp_def readProp_def jsnum_of_nat_def)

lemma delete_to_end:
  "0 < j \<Longrightarrow> i + j = length (document r) \<Longrightarrow>
     isValidOperation r (deleteOp (jsnum_of_nat i) (jsnum_of_nat j))"
  by (auto simp add: isValidOperation_def deleteOp_def readProp_def jsnum_of_nat_def)

text \<open>
  C2, as amended. For every operation and every document, the room's validity predicate
  holds exactly when: the type is one of insert, delete, retain; the position is a number
  that is neither below 0 nor above the length of the document (it need not be an integer,
  and \<^verbatim>\<open>NaN\<close> passes); an insert has a non-empty string as content; a delete has
  \<open>length > 0\<close> and \<open>position + length \<le> len(d)\<close>, the sum being the one JavaScript
  computes; a retain has \<open>length > 0\<close>. On operations whose position is an integer and
  whose length is not a fraction this is the predicate of the specification. An insert at
  \<open>len(d)\<close> is accepted and at \<open>len(d) + 1\<close> rejected; a delete of length 0 is rejected and
  one with \<open>position + length = len(d)\<close> accepted.
\<close>

theorem isValidOperation_characterised:
  "isValidOperation r operation = validateOperation_amended (document r) operation \<and>
   (\<forall>p. readProp operation ''position'' = JNum p \<longrightarrow> is_integer p \<longrightarrow>
      (\<forall>l. readProp operation ''length'' = JNum l \<longrightarrow> \<not> fractional l) \<longrightarrow>
      isValidOperation r operation = validateOperation_spec (document r) operation) \<and>
   (c \<noteq> [] \<longrightarrow> isValidOperation r (insertOp (jsnum_of_nat (length (document r))) c)) \<and>
   \<not> isValidOperation r (insertOp (jsnum_of_nat (length (document r) + 1)) c) \<and>
   \<not> isValidOperation r (deleteOp q (Fin 0)) \<and>
   (0 < j \<longrightarrow> i + j = length (document r) \<longrightarrow>
      isValidOperation r (deleteOp (jsnum_of_nat i) (jsnum_of_nat j)))"
  using valid_amended [of r operation] amended_spec [of operation _ "document r"]
    insert_at_end [of c r] insert_past_end [of r c] delete_nothing [of r q]
    delete_to_end [of j i r]
  by simp

text \<open>
  On "hello": an insert at 5 satisfies the specification's predicate and is accepted, an
  insert at 6 and a delete of length 0 are rejected, a delete of 2 units at 3 is accepted.
\<close>

theorem isValidOperation_characterised_witness:
  "validateOperation_spec ''hello'' (insertOp (Fin 5) ''x'') \<and>
   isValidOperation helloRoom (insertOp (Fin 5) ''x'') \<and>
   \<not> isValidOperation helloRoom (insertOp (Fin 6) ''x'') \<and>
   \<not> isValidOperation helloRoom (deleteOp (Fin 2) (Fin 0)) \<and>
   isValidOperation helloRoom (deleteOp (Fin 3) (Fin 2))"
proof -
  have d: "document helloRoom = ''hello''" by (simp add: helloRoom_def)
  have p: "readProp (insertOp (Fin 5) ''x'') ''position'' = JNum (Fin 5)"
    by (simp add: insertOp_def readProp_def)
  have i: "is_integer (Fin 5)" by (simp add: is_integer_def integral_def)
  have l: "\<forall>l. readProp (insertOp (Fin 5) ''x'') ''length'' = JNum l \<longrightarrow> \<not> fractional l"
    by (simp add: insertOp_def readProp_def)
  have s: "validateOperation_spec ''hello'' (insertOp (Fin 5) ''x'')"
    by (simp add: validateOperation_spec_def insertOp_def readProp_def jsnum_of_nat_def
        is_integer_def integral_def)
  note c2 = isValidOperation_characterised
         [of helloRoom "insertOp (Fin 5) ''x''" "''x''" "Fin 2" 2 3]
  from c2 p i l
  have e: "isValidOperation helloRoom (insertOp (Fin 5) ''x'') =
           validateOperation_spec (document helloRoom) (insertOp (Fin 5) ''x'')"
    by blast
  from c2
  have r: "\<not> isValidOperation helloRoom
               (insertOp (jsnum_of_nat (length (document helloRoom) + 1)) ''x'')"
    "\<not> isValidOperation helloRoom (deleteOp (Fin 2) (Fin 0))"
    "isValidOperation helloRoom (deleteOp (jsnum_of_nat 3) (jsnum_of_nat 2))"
    by (simp_all add: d)
  from s e r show ?thesis by (simp add: d jsnum_of_nat_def)
qed

text \<open>
  The claim as stated fails where the position is a fraction or \<^verbatim>\<open>NaN\<close>: the
  specification's predicate rejects an insert at 0.5 and an insert at \<^verbatim>\<open>NaN\<close>, the room
  accepts both.
\<close>

theorem isValidOperation_fraction_counterexample:
  "isValidOperation helloRoom (insertOp (Fin (1 / 2)) ''x'') \<and>
   \<not> validateOperation_spec (document helloRoom) (insertOp (Fin (1 / 2)) ''x'') \<and>
   isValidOperation helloRoom (insertOp NaN ''x'') \<and>
   \<not> validateOperation_spec (document helloRoom) (insertOp NaN ''x'')"
  by (simp add: isValidOperation_def validateOperation_spec_def example_defs is_integer_def
      integral_def floor_half)

section \<open>Applying an accepted operation\<close>

lemma apply_insert:
  assumes "truthy operation" "readProp operation ''type'' = JStr ''insert''"
    "readProp operation ''position'' = JNum p" "readProp operation ''content'' = JStr c"
  shows "applyOperationToDocument d operation =
           take (relIndex (length d) p) d @ c @ drop (relIndex (length d) p) d"
  using assms
  by (simp add: applyOperationToDocument_def applyOperationToDocument_try_def
      getProp_readProp slice_prefix slice_suffix)

lemma apply_delete:
  assumes "truthy operation" "readProp operation ''type'' = JStr ''delete''"
    "readProp operation ''position'' = JNum p" "readProp operation ''length'' = JNum l"
  shows "applyOperationToDocument d operation =
           take (relIndex (length d) p) d @ drop (relIndex (length d) (num_add p l)) d"
  using assms
  by (simp add: applyOperationToDocument_def applyOperationToDocument_try_def
      getProp_readProp slice_prefix slice_suffix js_plus_def)

lemma apply_retain:
  assumes "truthy operation" "readProp operation ''type'' = JStr ''retain''"
  shows "applyOperationToDocument d operation = d"
  using assms
  by (simp add: applyOperationToDocument_def applyOperationToDocument_try_def getProp_readProp)

lemma applyOperation_valid:
  assumes "isValidOperation r operation"
  shows "applyOperation now operation r =
     (Inr \<lparr>success = True, previousLength = length (document r),
           newLength = length (applyOperationToDocument (document r) operation)\<rparr>,
      r\<lparr>operations :=
           drop (length (operations r) + 1 - 1000)
             (operations r @ [spread operation [(''appliedAt'', JDate now)]]),
        document := applyOperationToDocument (document r) operation,
        lastActivity := now\<rparr>)"
  using assms by (simp add: applyOperation_def Let_def slice_last)

text \<open>
  C1, as amended. For every operation that a room accepts, \<^verbatim>\<open>applyOperation\<close> appends
  \<^verbatim>\<open>{...op, appliedAt: now}\<close> to the history and keeps the last 1000 entries, sets
  \<^verbatim>\<open>lastActivity\<close>, and returns \<^verbatim>\<open>{success, previousLength, newLength}\<close> with the lengths
  of the document before and after. An insert gives prefix + content + suffix, split at
  the position truncated to an index (at the position itself when it is an integer), so
  the length grows by the length of the content. A delete whose position and length are
  integers removes \<open>length\<close> units at \<open>position\<close>, so the length shrinks by \<open>length\<close>. A
  retain leaves the document as it was.
\<close>

theorem applyOperation_accepted:
  assumes "isValidOperation r operation"
  shows "let d = document r; n = length d; r' = snd (applyOperation now operation r) in
     fst (applyOperation now operation r) =
       Inr \<lparr>success = True, previousLength = n, newLength = length (document r')\<rparr> \<and>
     operations r' =
       drop (length (operations r) + 1 - 1000)
         (operations r @ [spread operation [(''appliedAt'', JDate now)]]) \<and>
     length (operations r') \<le> 1000 \<and>
     lastActivity r' = now \<and>
     (\<forall>p c. readProp operation ''type'' = JStr ''insert'' \<longrightarrow>
        readProp operation ''position'' = JNum p \<longrightarrow>
        readProp operation ''content'' = JStr c \<longrightarrow>
          document r' = take (relIndex n p) d @ c @ drop (relIndex n p) d \<and>
          length (document r') = n + length c \<and>
          (\<forall>i. p = Fin (of_int i) \<longrightarrow> relIndex n p = nat i)) \<and>
     (\<forall>i j. readProp operation ''type'' = JStr ''delete'' \<longrightarrow>
        readProp operation ''position'' = JNum (Fin (of_int i)) \<longrightarrow>
        readProp operation ''length'' = JNum (Fin (of_int j)) \<longrightarrow>
          document r' = take (nat i) d @ drop (nat i + nat j) d \<and>
          int (length (document r')) = int n - j) \<and>
     (readProp operation ''type'' = JStr ''retain'' \<longrightarrow> document r' = d)"
proof -
  let ?d = "document r" and ?n = "length (document r)"
  from assms have t: "truthy operation" by (simp add: valid_shape)
  note run = applyOperation_valid [OF assms, of now]
  have ins: "document (snd (applyOperation now operation r)) =
               take (relIndex ?n p) ?d @ c @ drop (relIndex ?n p) ?d \<and>
             length (document (snd (applyOperation now operation r))) = ?n + length c \<and>
             (\<forall>i. p = Fin (of_int i) \<longrightarrow> relIndex ?n p = nat i)"
    if "readProp operation ''type'' = JStr ''insert''"
      "readProp operation ''position'' = JNum p" "readProp operation ''content'' = JStr c"
    for p c
  proof -
    from assms that have b: "\<not> num_lt p (Fin 0)" "\<not> num_lt (jsnum_of_nat ?n) p"
      by (auto simp: valid_shape)
    have "relIndex ?n p = nat i" if "p = Fin (of_int i)" for i
    proof -
      from b that have "0 \<le> i" "i \<le> int ?n" by (auto simp: jsnum_of_nat_def)
      then show ?thesis unfolding that by (rule relIndex_int)
    qed
    moreover have "relIndex ?n p \<le> ?n" by (rule relIndex_le)
    ultimately show ?thesis using that t by (simp add: run apply_insert)
  qed
  have del: "document (snd (applyOperation now operation r)) =
               take (nat i) ?d @ drop (nat i + nat j) ?d \<and>
             int (length (document (snd (applyOperation now operation r)))) = int ?n - j"
    if "readProp operation ''type'' = JStr ''delete''"
      "readProp operation ''position'' = JNum (Fin (of_int i))"
      "readProp operation ''length'' = JNum (Fin (of_int j))"
    for i j
  proof -
    from assms that have b: "0 \<le> i" "0 < j" "i + j \<le> int ?n"
      by (auto simp: valid_shape jsnum_of_nat_def)
    have "num_add (Fin (of_int i)) (Fin (of_int j)) = Fin (of_int (i + j))" by simp
    moreover have "relIndex ?n (Fin (of_int (i + j))) = nat (i + j)"
      using b by (intro relIndex_int) auto
    moreover have "relIndex ?n (Fin (of_int i)) = nat i"
      using b by (intro relIndex_int) auto
    moreover have "nat (i + j) = nat i + nat j" using b by (simp add: nat_add_distrib)
    ultimately have "applyOperationToDocument ?d operation =
        take (nat i) ?d @ drop (nat i + nat j) ?d"
      using that t by (simp add: apply_delete del: num_add.simps)
    then show ?thesis using b by (simp add: run)
  qed
  have ret: "document (snd (applyOperation now operation r)) = ?d"
    if "readProp operation ''type'' = JStr ''retain''"
    using that t by (simp add: run apply_retain)
  show ?thesis
    unfolding Let_def
    apply (intro conjI allI impI)
    subgoal by (simp add: run)
    subgoal by (simp add: run)
    subgoal by (simp add: run)
    subgoal by (simp add: run)
    subgoal for p c using ins [of p c] by blast
    subgoal for p c using ins [of p c] by blast
    subgoal for p c i using ins [of p c] by blast
    subgoal for i j using del [of i j] by blast
    subgoal for i j using del [of i j] by blast
    subgoal using ret by simp
    done
qed

text \<open>Deleting 2 units at position 1 of "hello" leaves "hlo": lengths 5 and 3.\<close>

theorem applyOperation_accepted_witness:
  "isValidOperation helloRoom (deleteOp (Fin 1) (Fin 2)) \<and>
   fst (applyOperation 7 (deleteOp (Fin 1) (Fin 2)) helloRoom) =
     Inr \<lparr>success = True, previousLength = 5, newLength = 3\<rparr> \<and>
   document (snd (applyOperation 7 (deleteOp (Fin 1) (Fin 2)) helloRoom)) = ''hlo''"
proof -
  have v: "isValidOperation helloRoom (deleteOp (Fin 1) (Fin 2))"
    by (simp add: isValidOperation_def example_defs)
  have d: "document helloRoom = ''hello''" by (simp add: helloRoom_def)
  have p: "readProp (deleteOp (Fin 1) (Fin 2)) ''type'' = JStr ''delete''"
     "readProp (deleteOp (Fin 1) (Fin 2)) ''position'' = JNum (Fin (of_int 1))"
     "readProp (deleteOp (Fin 1) (Fin 2)) ''length'' = JNum (Fin (of_int 2))"
    by (simp_all add: deleteOp_def readProp_def)
  from applyOperation_accepted [OF v, of 7] p
  have "fst (applyOperation 7 (deleteOp (Fin 1) (Fin 2)) helloRoom) =
       Inr \<lparr>success = True, previousLength = length (document helloRoom),
        newLength = length (document (snd (applyOperation 7 (deleteOp (Fin 1) (Fin 2)) helloRoom)))\<rparr>"
    and "document (snd (applyOperation 7 (deleteOp (Fin 1) (Fin 2)) helloRoom)) =
       take (nat 1) (document helloRoom) @ drop (nat 1 + nat 2) (document helloRoom)"
    unfolding Let_def by blast+
  with v d show ?thesis by simp
qed

text \<open>
  The claim as stated fails for a delete whose length is a fraction: a delete of length 0.5
  at position 0 of "hello" is accepted and removes nothing, so the new length is 5 and not
  5 minus 0.5.
\<close>

theorem applyOperation_fraction_counterexample:
  "isValidOperation helloRoom (deleteOp (Fin 0) (Fin (1 / 2))) \<and>
   fst (applyOperation 7 (deleteOp (Fin 0) (Fin (1 / 2))) helloRoom) =
     Inr \<lparr>success = True, previousLength = 5, newLength = 5\<rparr> \<and>
   document (snd (applyOperation 7 (deleteOp (Fin 0) (Fin (1 / 2))) helloRoom)) = ''hello'' \<and>
   rat_of_nat 5 \<noteq> rat_of_nat (length (document helloRoom)) - 1 / 2"
proof -
  have v: "isValidOperation helloRoom (deleteOp (Fin 0) (Fin (1 / 2)))"
    by (simp add: isValidOperation_def example_defs)
  have a: "applyOperationToDocument (document helloRoom) (deleteOp (Fin 0) (Fin (1 / 2))) =
      ''hello''"
    by (simp add: applyOperationToDocument_def applyOperationToDocument_try_def example_defs
        js_plus_def slice_def js_trunc_def floor_half)
  have d: "length (document helloRoom) = 5" by (simp add: helloRoom_def)
  show ?thesis unfolding applyOperation_valid [OF v] using v by (simp add: a d)
qed

section \<open>Validation failures change nothing\<close>

text \<open>
  C9. An operation that \<^verbatim>\<open>isValidOperation\<close> rejects makes \<^verbatim>\<open>applyOperation\<close> throw
  "Invalid operation" before it has changed anything: the room it leaves is the room it
  found, so the history and \<^verbatim>\<open>lastActivity\<close> are untouched as well as the document.
\<close>

theorem applyOperation_invalid_atomic:
  assumes "\<not> isValidOperation r operation"
  shows "applyOperation now operation r = (Inl (Error ''Invalid operation''), r)"
  using assms by (simp add: applyOperation_def)

text \<open>The delete of length 1 at position 5 of "hello".\<close>

theorem applyOperation_invalid_atomic_witness:
  "\<not> isValidOperation helloRoom (deleteOp (Fin 5) (Fin 1)) \<and>
   applyOperation 7 (deleteOp (Fin 5) (Fin 1)) helloRoom =
     (Inl (Error ''Invalid operation''), helloRoom)"
proof -
  have rejected: "\<not> isValidOperation helloRoom (deleteOp (Fin 5) (Fin 1))"
    by (simp add: isValidOperation_def example_defs)
  from applyOperation_invalid_atomic [OF rejected] rejected show ?thesis by simp
qed

section \<open>Bounds of a room\<close>

lemma length_update_le: "length (AList.update k v al) \<le> Suc (length al)"
  by (induction al) auto

lemma length_update_below: "length al < n \<Longrightarrow> length (AList.update k v al) \<le> n"
  using length_update_le [of k v al] by linarith

lemma addUser_bounds: "room_bounds r \<Longrightarrow> room_bounds (snd (addUser now userId ud r))"
  by (auto simp: addUser_def room_bounds_def Let_def intro!: length_update_below)

lemma removeUser_bounds: "room_bounds r \<Longrightarrow> room_bounds (snd (removeUser now userId r))"
  using length_delete_le [of userId "users r"]
  by (auto simp: removeUser_def room_bounds_def Let_def split: option.splits)

lemma applyOperation_bounds:
  "room_bounds r \<Longrightarrow> room_bounds (snd (applyOperation now operation r))"
proof (cases "isValidOperation r operation")
  case True
  assume "room_bounds r"
  then show ?thesis by (simp add: applyOperation_valid [OF True] room_bounds_def)
next
  case False
  assume "room_bounds r"
  then show ?thesis by (simp add: applyOperation_def False)
qed

lemma call_bounds: "room_bounds r \<Longrightarrow> room_bounds (call now c r)"
  by (cases c) (simp_all add: addUser_bounds removeUser_bounds applyOperation_bounds)

lemma calls_bounds: "room_bounds r \<Longrightarrow> room_bounds (calls cs r)"
  by (induction cs arbitrary: r) (auto simp: call_bounds)

lemma newRoom_bounds: "room_bounds (newRoom now rid)"
  by (simp add: room_bounds_def newRoom_def)

text \<open>
  C6. For every room within its bounds (\<^verbatim>\<open>maxUsers\<close> is 10, at most 10 members, at most
  1000 history entries), and so for every new room, every sequence of \<^verbatim>\<open>addUser\<close>,
  \<^verbatim>\<open>removeUser\<close> and \<^verbatim>\<open>applyOperation\<close> calls leaves the room within its bounds:
  \<^verbatim>\<open>addUser\<close> rejects with "Room is full" when the room already has \<^verbatim>\<open>maxUsers\<close>
  members, and \<^verbatim>\<open>applyOperation\<close> keeps the most recent 1000 entries of the history.
\<close>

theorem room_bounds_preserved:
  assumes "room_bounds r"
  shows "room_bounds (calls cs r) \<and>
    room_bounds (calls cs (newRoom created rid)) \<and>
    (length (users r) = maxUsers r \<longrightarrow>
       addUser now userId ud r = (Inl (Error ''Room is full''), r)) \<and>
    (isValidOperation r operation \<longrightarrow>
       operations (snd (applyOperation now operation r)) =
         drop (length (operations r) + 1 - 1000)
           (operations r @ [spread operation [(''appliedAt'', JDate now)]]))"
  using assms
  by (simp add: calls_bounds newRoom_bounds addUser_def applyOperation_valid)

text \<open>
  A room with ten members: an eleventh is rejected, and the room stays within its bounds
  through a rejected join, an accepted insert and a leave.
\<close>

theorem room_bounds_preserved_witness:
  "room_bounds fullRoom \<and>
   length (users fullRoom) = maxUsers fullRoom \<and>
   room_bounds (calls [(1, AddUser ''s11'' bob), (2, ApplyOperation (insertOp (Fin 0) ''X'')),
                       (3, RemoveUser ''s1'')] fullRoom) \<and>
   addUser 1 ''s11'' bob fullRoom = (Inl (Error ''Room is full''), fullRoom) \<and>
   isValidOperation fullRoom (insertOp (Fin 0) ''X'') \<and>
   operations (snd (applyOperation 2 (insertOp (Fin 0) ''X'') fullRoom)) =
     [spread (insertOp (Fin 0) ''X'') [(''appliedAt'', JDate 2)]]"
proof -
  have b: "room_bounds fullRoom"
    by (simp add: room_bounds_def fullRoom_def helloRoom_def newRoom_def)
  have f: "length (users fullRoom) = maxUsers fullRoom"
    by (simp add: fullRoom_def helloRoom_def newRoom_def)
  have v: "isValidOperation fullRoom (insertOp (Fin 0) ''X'')"
    by (simp add: isValidOperation_def fullRoom_def example_defs)
  have h: "operations fullRoom = []" by (simp add: fullRoom_def helloRoom_def newRoom_def)
  let ?cs = "[(1, AddUser ''s11'' bob), (2, ApplyOperation (insertOp (Fin 0) ''X'')),
              (3, RemoveUser ''s1'')]"
  note c6 = room_bounds_preserved [OF b, of ?cs 0 "''ABC123''" _ "''s11''" bob
      "insertOp (Fin 0) ''X''"]
  from c6 [of 1] have 1: "room_bounds (calls ?cs fullRoom)" by (rule conjunct1)
  from c6 [of 1] f
  have 2: "addUser 1 ''s11'' bob fullRoom = (Inl (Error ''Room is full''), fullRoom)"
    by blast
  from c6 [of 2] v
  have "operations (snd (applyOperation 2 (insertOp (Fin 0) ''X'') fullRoom)) =
     drop (length (operations fullRoom) + 1 - 1000)
       (operations fullRoom @ [spread (insertOp (Fin 0) ''X'') [(''appliedAt'', JDate 2)]])"
    by blast
  then have 3: "operations (snd (applyOperation 2 (insertOp (Fin 0) ''X'') fullRoom)) =
     [spread (insertOp (Fin 0) ''X'') [(''appliedAt'', JDate 2)]]"
    by (simp add: h)
  from b f 1 2 v 3 show ?thesis by blast
qed

section \<open>The apply step and its exceptions\<close>











section \<open>Joining a room\<close>

lemma convertible_js_or: "convertible a \<Longrightarrow> convertible b \<Longrightarrow> convertible (js_or a b)"
  by (simp add: js_or_def)

lemma not_convertible_truthy: "\<not> convertible v \<Longrightarrow> truthy v"
  by (cases v) simp_all

lemma not_convertible_js_or: "\<not> convertible a \<Longrightarrow> js_or a b = a"
  by (simp add: js_or_def not_convertible_truthy)

lemma message_conversionError [simp]:
  "message conversionError = ''Cannot convert object to primitive value''"
  by (simp add: conversionError_def)

lemma joinRoom_request:
  assumes "requestOf data = Some requested" "convertible requested"
    "convertible (joinUserName data)"
  shows "joinRoom toUpperCase now s sock data callback =
           joinRoom_try toUpperCase now s sock requested (joinUserName data) callback"
proof -
  have c: "convertible (js_or (joinUserName data) (JStr ''anonymous''))"
    using assms(3) by (simp add: convertible_js_or)
  show ?thesis
  proof (cases "typeof data = ''string''")
    case True
    with assms c show ?thesis by (simp add: requestOf_def joinRoom_def joinUserName_def)
  next
    case False
    with assms(1) have "getProp data ''roomId'' = Inr requested"
      by (simp add: requestOf_def split: sum.splits)
    with False assms(2) c show ?thesis by (simp add: joinRoom_def joinUserName_def)
  qed
qed

lemma joinRoom_log_raises:
  assumes "requestOf data = Some requested"
    "\<not> convertible requested \<or> \<not> convertible (joinUserName data)"
  shows "joinRoom toUpperCase now s sock data callback =
           \<lparr>server_of = s, socket_of = sock, emitted = [], uncaught = Some conversionError\<rparr>"
proof -
  have c: "\<not> convertible requested \<or>
           \<not> convertible (js_or (joinUserName data) (JStr ''anonymous''))"
    using assms(2) by (auto simp: not_convertible_js_or)
  show ?thesis
  proof (cases "typeof data = ''string''")
    case True
    with assms c show ?thesis by (simp add: requestOf_def joinRoom_def joinUserName_def)
  next
    case False
    with assms(1) have "getProp data ''roomId'' = Inr requested"
      by (simp add: requestOf_def split: sum.splits)
    with False c show ?thesis by (simp add: joinRoom_def joinUserName_def)
  qed
qed

lemma addUser_messages:
  "addUser now userId ud r = (Inl e, r') \<Longrightarrow>
     e = Error ''Room is full'' \<or> e = Error ''Invalid user data'' \<or> e = conversionError"
  by (auto simp: addUser_def Let_def split: if_splits)

lemma joinRoom_try_invalid:
  assumes "\<forall>given. requested = JStr given \<longrightarrow> length given \<noteq> 6"
    "typeof callback = ''function''"
  shows "joinRoom_try toUpperCase now s sock requested userName callback =
           \<lparr>server_of = s, socket_of = sock,
            emitted = [Callback (AckFail ''Invalid room ID format'')], uncaught = None\<rparr>"
  using assms by (cases requested) (simp_all add: joinRoom_try_def joinRoom_reply_def)

lemma joinRoom_try_missing:
  assumes "length given = 6" "typeof callback = ''function''"
    "map_of (rooms s) (toUpperCase given) = None"
  shows "joinRoom_try toUpperCase now s sock (JStr given) userName callback =
           \<lparr>server_of = s, socket_of = sock,
            emitted = [Callback (AckFail ''Room not found'')], uncaught = None\<rparr>"
proof -
  from assms(1) have "given \<noteq> []" by auto
  with assms show ?thesis by (simp add: joinRoom_try_def joinRoom_reply_def)
qed

lemma joinRoom_try_found:
  assumes "length given = 6" "typeof callback = ''function''"
    "map_of (rooms s) (toUpperCase given) = Some room"
  shows "emitted (joinRoom_try toUpperCase now s sock (JStr given) userName callback) \<notin>
           {[Callback (AckFail ''Invalid room ID format'')],
            [Callback (AckFail ''Room not found'')]}"
proof -
  from assms(1) have g: "given \<noteq> []" by auto
  let ?ud = "\<lparr>user_id = sock_id sock,
              name = js_or userName (JStr (generateUserName (length (users room)))),
              color = JStr (fst (getNextUserColor s)), cursor = origin\<rparr>"
  obtain res room1 where add: "addUser now (sock_id sock) ?ud room = (res, room1)"
    by (cases "addUser now (sock_id sock) ?ud room")
  show ?thesis
  proof (cases res)
    case (Inl e)
    with add addUser_messages
    have "e = Error ''Room is full'' \<or> e = Error ''Invalid user data'' \<or> e = conversionError"
      by blast
    with Inl add g assms show ?thesis
      by (auto simp: joinRoom_try_def joinRoom_reply_def joinRoom_catch_def Let_def)
  next
    case (Inr u)
    with add g assms show ?thesis
      by (auto simp: joinRoom_try_def joinRoom_reply_def Let_def)
  qed
qed


text \<open>
  C4. A join-room request that carries a 6-character id whose uppercased form is not a key
  of the registry, and that comes with an acknowledgement callback, is acknowledged with
  \<^verbatim>\<open>{success: false, error: "Room not found"}\<close>, nothing else is sent, and the server (the
  registry with every room's document, members and history, and the colour counter) and
  the session's room binding are unchanged, when the user name of the request can be
  converted to a string. When it cannot, the request is not acknowledged at all: the log
  line that stands before the \<^verbatim>\<open>try\<close> statement raises a TypeError, which leaves the
  handler.
\<close>

theorem joinRoom_unknown_room:
  assumes "requestOf data = Some (JStr given)" "length given = 6"
    "map_of (rooms s) (toUpperCase given) = None" "typeof callback = ''function''"
  shows "joinRoom toUpperCase now s sock data callback =
           (if convertible (joinUserName data) then
              \<lparr>server_of = s, socket_of = sock,
               emitted = [Callback (AckFail ''Room not found'')], uncaught = None\<rparr>
            else
              \<lparr>server_of = s, socket_of = sock, emitted = [],
               uncaught = Some conversionError\<rparr>)"
proof (cases "convertible (joinUserName data)")
  case True
  have "convertible (JStr given)" by simp
  from joinRoom_request [OF assms(1) this True]
    joinRoom_try_missing [where toUpperCase = toUpperCase and given = given,
      OF assms(2) assms(4) assms(3)]
  show ?thesis using True by simp
next
  case False
  then have "\<not> convertible (JStr given) \<or> \<not> convertible (joinUserName data)" by simp
  from joinRoom_log_raises [OF assms(1) this] False show ?thesis by simp
qed

text \<open>
  A fresh session asks for "zzz999" while the registry holds only "ABC123": with the
  payload \<^verbatim>\<open>{roomId: "zzz999", userName: {toString: 1}}\<close> nothing is acknowledged and a
  TypeError leaves the handler; with the payload \<^verbatim>\<open>"zzz999"\<close> the answer is
  "Room not found".
\<close>

theorem joinRoom_unknown_room_witness:
  "requestOf hostileJoin = Some (JStr ''zzz999'') \<and> length ''zzz999'' = 6 \<and>
   map_of (rooms exampleServer) (asciiUpper ''zzz999'') = None \<and>
   typeof JFunction = ''function'' \<and>
   joinRoom asciiUpper 7 exampleServer freshSocket hostileJoin JFunction =
     \<lparr>server_of = exampleServer, socket_of = freshSocket, emitted = [],
      uncaught = Some (TypeError ''Cannot convert object to primitive value'')\<rparr> \<and>
   joinRoom asciiUpper 7 exampleServer freshSocket (JStr ''zzz999'') JFunction =
     \<lparr>server_of = exampleServer, socket_of = freshSocket,
      emitted = [Callback (AckFail ''Room not found'')], uncaught = None\<rparr>"
proof -
  have h: "requestOf hostileJoin = Some (JStr ''zzz999'')" "length ''zzz999'' = 6"
    "map_of (rooms exampleServer) (asciiUpper ''zzz999'') = None"
    "typeof JFunction = ''function''"
    by (simp_all add: requestOf_def hostileJoin_def exampleServer_def asciiUpper_def)
  have r: "requestOf (JStr ''zzz999'') = Some (JStr ''zzz999'')"
    by (simp add: requestOf_def)
  have n: "\<not> convertible (joinUserName hostileJoin)" "convertible (joinUserName (JStr ''zzz999''))"
    by (simp_all add: joinUserName_def hostileJoin_def hostile_def readProp_def js_or_def)
  from joinRoom_unknown_room [where toUpperCase = asciiUpper and given = "''zzz999''",
      OF h(1) h(2) h(3) h(4), of 7 freshSocket]
    joinRoom_unknown_room [where toUpperCase = asciiUpper and given = "''zzz999''",
      OF r h(2) h(3) h(4), of 7 freshSocket]
    h n
  show ?thesis by (simp add: conversionError_def)
qed




text \<open>
  C7, as amended. At join, a room id that is not a string of exactly 6 characters is
  acknowledged with \<^verbatim>\<open>{success: false, error: "Invalid room ID format"}\<close> and nothing
  changes, the id and the user name of the request being convertible to strings (the
  log line before the \<^verbatim>\<open>try\<close> converts both). The characters are not checked: a string
  of 6 characters is never answered with that error; it is uppercased and then looked up,
  and the acknowledgement is "Room not found" exactly when the registry has no room under
  the uppercased id.
\<close>

theorem joinRoom_format:
  assumes "requestOf data = Some requested" "convertible requested"
    "convertible (joinUserName data)" "typeof callback = ''function''"
  shows "((\<forall>given. requested = JStr given \<longrightarrow> length given \<noteq> 6) \<longrightarrow>
            joinRoom toUpperCase now s sock data callback =
              \<lparr>server_of = s, socket_of = sock,
               emitted = [Callback (AckFail ''Invalid room ID format'')], uncaught = None\<rparr>) \<and>
         (\<forall>given. requested = JStr given \<longrightarrow> length given = 6 \<longrightarrow>
            emitted (joinRoom toUpperCase now s sock data callback) \<noteq>
              [Callback (AckFail ''Invalid room ID format'')] \<and>
            (map_of (rooms s) (toUpperCase given) = None) =
              (emitted (joinRoom toUpperCase now s sock data callback) =
                 [Callback (AckFail ''Room not found'')]))"
proof -
  note j = joinRoom_request [OF assms(1) assms(2) assms(3)]
  have a: "joinRoom toUpperCase now s sock data callback =
              \<lparr>server_of = s, socket_of = sock,
               emitted = [Callback (AckFail ''Invalid room ID format'')], uncaught = None\<rparr>"
    if "\<forall>given. requested = JStr given \<longrightarrow> length given \<noteq> 6"
    unfolding j using that assms(4) by (rule joinRoom_try_invalid)
  have b: "emitted (joinRoom toUpperCase now s sock data callback) \<noteq>
              [Callback (AckFail ''Invalid room ID format'')] \<and>
            (map_of (rooms s) (toUpperCase given) = None) =
              (emitted (joinRoom toUpperCase now s sock data callback) =
                 [Callback (AckFail ''Room not found'')])"
    if r: "requested = JStr given" and l: "length given = 6" for given
  proof (cases "map_of (rooms s) (toUpperCase given)")
    case None
    from joinRoom_try_missing [where toUpperCase = toUpperCase and given = given,
        OF l assms(4) None]
    show ?thesis
      unfolding j r by (simp add: None)
  next
    case (Some room)
    from joinRoom_try_found [where toUpperCase = toUpperCase and given = given,
        OF l assms(4) Some]
    show ?thesis
      unfolding j r by (simp add: Some)
  qed
  from a b show ?thesis by blast
qed

text \<open>
  The id "abc" is answered "Invalid room ID format", and so is the id 123456, a number;
  the id "abc123" is not, and is not answered "Room not found" either, the registry
  holding "ABC123".
\<close>

theorem joinRoom_format_witness:
  "requestOf (JStr ''abc'') = Some (JStr ''abc'') \<and>
   joinRoom asciiUpper 7 exampleServer freshSocket (JStr ''abc'') JFunction =
     \<lparr>server_of = exampleServer, socket_of = freshSocket,
      emitted = [Callback (AckFail ''Invalid room ID format'')], uncaught = None\<rparr> \<and>
   requestOf (JObj [(''roomId'', JNum (Fin 123456))]) = Some (JNum (Fin 123456)) \<and>
   joinRoom asciiUpper 7 exampleServer freshSocket (JObj [(''roomId'', JNum (Fin 123456))])
       JFunction =
     \<lparr>server_of = exampleServer, socket_of = freshSocket,
      emitted = [Callback (AckFail ''Invalid room ID format'')], uncaught = None\<rparr> \<and>
   map_of (rooms exampleServer) (asciiUpper ''abc123'') = Some exampleRoom \<and>
   emitted (joinRoom asciiUpper 7 exampleServer freshSocket (JStr ''abc123'') JFunction) \<noteq>
     [Callback (AckFail ''Invalid room ID format'')] \<and>
   emitted (joinRoom asciiUpper 7 exampleServer freshSocket (JStr ''abc123'') JFunction) \<noteq>
     [Callback (AckFail ''Room not found'')]"
proof -
  have f: "typeof JFunction = ''function''" by simp
  have r3: "requestOf (JStr ''abc'') = Some (JStr ''abc'')"
    and r6: "requestOf (JStr ''abc123'') = Some (JStr ''abc123'')"
    and rn: "requestOf (JObj [(''roomId'', JNum (Fin 123456))]) = Some (JNum (Fin 123456))"
    by (simp_all add: requestOf_def)
  have c: "convertible (JStr ''abc'')" "convertible (JStr ''abc123'')"
    "convertible (JNum (Fin 123456))"
    "convertible (joinUserName (JStr ''abc''))" "convertible (joinUserName (JStr ''abc123''))"
    "convertible (joinUserName (JObj [(''roomId'', JNum (Fin 123456))]))"
    by (simp_all add: joinUserName_def readProp_def js_or_def)
  have m: "map_of (rooms exampleServer) (asciiUpper ''abc123'') = Some exampleRoom"
    by (simp add: exampleServer_def asciiUpper_def)
  from joinRoom_format [where toUpperCase = asciiUpper, OF r3 c(1) c(4) f,
      of 7 exampleServer freshSocket]
  have 1: "joinRoom asciiUpper 7 exampleServer freshSocket (JStr ''abc'') JFunction =
     \<lparr>server_of = exampleServer, socket_of = freshSocket,
      emitted = [Callback (AckFail ''Invalid room ID format'')], uncaught = None\<rparr>"
    by simp
  from joinRoom_format [where toUpperCase = asciiUpper, OF rn c(3) c(6) f,
      of 7 exampleServer freshSocket]
  have n: "joinRoom asciiUpper 7 exampleServer freshSocket
       (JObj [(''roomId'', JNum (Fin 123456))]) JFunction =
     \<lparr>server_of = exampleServer, socket_of = freshSocket,
      emitted = [Callback (AckFail ''Invalid room ID format'')], uncaught = None\<rparr>"
    by simp
  from joinRoom_format [where toUpperCase = asciiUpper, OF r6 c(2) c(5) f,
      of 7 exampleServer freshSocket]
  have 2: "emitted (joinRoom asciiUpper 7 exampleServer freshSocket (JStr ''abc123'') JFunction) \<noteq>
      [Callback (AckFail ''Invalid room ID format'')] \<and>
    (map_of (rooms exampleServer) (asciiUpper ''abc123'') = None) =
      (emitted (joinRoom asciiUpper 7 exampleServer freshSocket (JStr ''abc123'') JFunction) =
         [Callback (AckFail ''Room not found'')])"
    by simp
  from r3 1 rn n m 2 show ?thesis by simp
qed

text \<open>
  The claim as stated fails for a 6-character id outside the letters and digits: "ab-cd!"
  breaks the lexical rule and is answered "Room not found". It also fails for the id
  \<^verbatim>\<open>{toString: 1}\<close>, which is no string of 6 characters: the log line before the \<^verbatim>\<open>try\<close>
  raises a TypeError and nothing is acknowledged.
\<close>

theorem joinRoom_charset_counterexample:
  "\<not> roomIdRule ''ab-cd!'' \<and>
   joinRoom asciiUpper 7 exampleServer freshSocket (JStr ''ab-cd!'') JFunction =
     \<lparr>server_of = exampleServer, socket_of = freshSocket,
      emitted = [Callback (AckFail ''Room not found'')], uncaught = None\<rparr> \<and>
   requestOf (JObj [(''roomId'', hostile)]) = Some hostile \<and>
   joinRoom asciiUpper 7 exampleServer freshSocket (JObj [(''roomId'', hostile)]) JFunction =
     \<lparr>server_of = exampleServer, socket_of = freshSocket, emitted = [],
      uncaught = Some (TypeError ''Cannot convert object to primitive value'')\<rparr>"
  by (simp add: roomIdRule_def alnum_def joinRoom_def joinRoom_try_def joinRoom_reply_def
      asciiUpper_def exampleServer_def js_or_def requestOf_def hostile_def readProp_def
      conversionError_def)

section \<open>Creating a room while in another\<close>







section \<open>The health endpoint\<close>

text \<open>
  C8. The claim is that every \<^verbatim>\<open>GET /health\<close> returns
  \<^verbatim>\<open>{status, timestamp, server: {uptime, memory, rooms}, rooms: [roomStats...]}\<close>. The
  handler that builds this body is the second route registered for \<^verbatim>\<open>/health\<close>; every
  request is answered by the first, with \<^verbatim>\<open>{status: "ok", rooms: rooms.size, timestamp}\<close>:
  the number of rooms in place of the list of statistics, and no \<^verbatim>\<open>server\<close> object.
\<close>

theorem health_first_route_answers:
  "httpGet ''/health'' now process s = BasicHealth ''ok'' (length (rooms s)) now \<and>
   httpGet ''/health'' now process s \<noteq> healthEnhanced now process s"
  by (simp add: httpGet_def routes_def healthBasic_def healthEnhanced_def)

end
